theory Spec2Isabelle
  imports Main "HOL-Library.Sublist"
begin

section \<open>Python strings\<close>

text \<open>
  A Python \<open>str\<close> is modelled as a \<open>string\<close>, a list of 8-bit characters that stand for
  the code points below 256. \<open>len\<close> is \<open>length\<close>, \<open>s[-k:]\<close> with \<open>0 < k \<le> len(s)\<close> is
  \<open>drop (length s - k) s\<close>, \<open>s.startswith(p)\<close> is \<open>prefix p s\<close>.
\<close>

definition nl :: char where
  "nl = CHR 0x0A"

text \<open>The code points below 256 for which \<open>str.isspace\<close> holds, the next-line control
  \<open>0x85\<close> and the no-break space \<open>0xA0\<close> among them; \<open>str.strip()\<close> removes them.\<close>

definition is_space :: "char \<Rightarrow> bool" where
  "is_space c = (c \<in> set [CHR 0x09, CHR 0x0A, CHR 0x0B, CHR 0x0C, CHR 0x0D,
                            CHR 0x1C, CHR 0x1D, CHR 0x1E, CHR 0x1F, CHR 0x20,
                            CHR 0x85, CHR 0xA0])"

definition strip :: "string \<Rightarrow> string" where
  "strip s = rev (dropWhile is_space (rev (dropWhile is_space s)))"

text \<open>\<open>str.lower()\<close> on code points below 256: the capitals \<open>A\<close> to \<open>Z\<close> and those of
  Latin-1 (\<open>0xC0\<close> to \<open>0xDE\<close> without the multiplication sign \<open>0xD7\<close>) move up by 32.\<close>

definition lower_char :: "char \<Rightarrow> char" where
  "lower_char c =
     (let n = (of_char c :: nat)
      in if (65 \<le> n \<and> n \<le> 90) \<or> (192 \<le> n \<and> n \<le> 222 \<and> n \<noteq> 215)
         then char_of (n + 32) else c)"

definition lower :: "string \<Rightarrow> string" where
  "lower s = map lower_char s"

text \<open>\<open>p in s\<close> for strings: \<open>p\<close> occurs in \<open>s\<close> as a contiguous block.\<close>

fun str_contains :: "string \<Rightarrow> string \<Rightarrow> bool" where
  "str_contains p [] = (p = [])"
| "str_contains p (c # cs) = (prefix p (c # cs) \<or> str_contains p cs)"

text \<open>\<open>s.split('\n')\<close>: the pieces between line feeds; never the empty list.\<close>

fun split_acc :: "string \<Rightarrow> string \<Rightarrow> string list" where
  "split_acc acc [] = [rev acc]"
| "split_acc acc (c # cs) =
     (if c = nl then rev acc # split_acc [] cs else split_acc (c # acc) cs)"

definition split_nl :: "string \<Rightarrow> string list" where
  "split_nl s = split_acc [] s"

text \<open>\<open>'\n'.join(ls)\<close>.\<close>

fun join_nl :: "string list \<Rightarrow> string" where
  "join_nl [] = []"
| "join_nl [l] = l"
| "join_nl (l # m # ls) = l @ nl # join_nl (m # ls)"

text \<open>\<open>str(n)\<close> for an integer: decimal digits, with a sign when negative.\<close>

definition digit_char :: "nat \<Rightarrow> char" where
  "digit_char d = char_of (48 + d)"

fun str_nat :: "nat \<Rightarrow> string" where
  "str_nat n = (if n < 10 then [digit_char n] else str_nat (n div 10) @ [digit_char (n mod 10)])"

declare str_nat.simps [simp del]

definition str_int :: "int \<Rightarrow> string" where
  "str_int i = (if i < 0 then CHR ''-'' # str_nat (nat (- i)) else str_nat (nat i))"

text \<open>\<open>ls.index(x)\<close>: the position of the first element equal to \<open>x\<close>; \<open>None\<close> stands for
  the \<open>ValueError\<close> raised when there is none.\<close>

fun list_index :: "'a list \<Rightarrow> 'a \<Rightarrow> nat option" where
  "list_index [] x = None"
| "list_index (y # ys) x =
     (if y = x then Some 0 else map_option Suc (list_index ys x))"


section \<open>Result extraction\<close>

text \<open>The test of the loop in \<open>_extract_last_message\<close>:
  \<open>line.strip() and not line.startswith('#') and not line.startswith('```')\<close>.\<close>

definition substantial :: "string \<Rightarrow> bool" where
  "substantial line =
     (strip line \<noteq> [] \<and> \<not> prefix ''#'' line \<and> \<not> prefix ''```'' line)"

text \<open>
  \<open>_extract_last_message\<close>. The loop over \<open>reversed(lines)\<close> returns at the first line
  that passes the test, which is \<open>find substantial (rev lines)\<close>. The slice
  \<open>full_output[-len(full_output)//5:]\<close> parses as \<open>(-len) // 5\<close>, a floor division of a
  negative number; on the branch where it is taken the length exceeds 100, so the bound is
  a negative index that counts from the end.
\<close>

definition extract_last_message :: "string \<Rightarrow> string" where
  "extract_last_message full_output =
     (if strip full_output = [] then ''No output received''
      else
        let lines = split_nl (strip full_output) in
        case find substantial (rev lines) of
          Some line \<Rightarrow>
            (case list_index lines line of
               Some line_index \<Rightarrow>
                 let start_index = nat (max 0 (int line_index - 3))
                 in strip (join_nl (drop start_index lines))
             | None \<Rightarrow> strip line)
        | None \<Rightarrow>
            if length full_output > 100
            then strip (drop (nat (int (length full_output) + (- int (length full_output)) div 5))
                          full_output)
            else full_output)"

text \<open>\<open>_truncate_from_end\<close>: keeps the end of the text.\<close>

definition truncate_from_end :: "string \<Rightarrow> int \<Rightarrow> string" where
  "truncate_from_end text max_tokens =
     (if max_tokens \<le> 0 then []
      else
        let max_chars = max_tokens * 4 in
        if int (length text) \<le> max_chars then text
        else
          let truncated = drop (nat (int (length text) - max_chars)) text
          in ''...[truncated '' @ str_int (int (length text) - max_chars)
               @ '' characters]...'' @ [nl] @ truncated)"


section \<open>Model resolution\<close>

definition fallback_model :: string where
  "fallback_model = ''openrouter/google/gemini-2.5-flash''"

definition providers :: "string list" where
  "providers = [''openrouter'', ''anthropic'', ''openai'', ''google'']"

text \<open>\<open>_get_fallback_model\<close>. \<open>if requested_model:\<close> is false for \<open>None\<close> and for the
  empty string. The logging call has no effect on the result.\<close>

definition get_fallback_model :: "string option \<Rightarrow> string" where
  "get_fallback_model requested_model =
     (case requested_model of
        None \<Rightarrow> fallback_model
      | Some m \<Rightarrow>
          if m \<noteq> [] \<and> list_ex (\<lambda>provider. str_contains provider (lower m)) providers
          then m else fallback_model)"


section \<open>The record store\<close>

text \<open>
  The tables the tool reads and writes, each a list of rows in insertion order. A store
  call is modelled as a total operation on these lists: \<open>insert\<close> appends a row, a
  \<open>select\<close> with \<open>eq\<close> filters is \<open>filter\<close>, an \<open>update\<close> with an \<open>eq\<close> filter rewrites the
  matching rows. A store call that raises (a lost connection) is outside the model, so the
  handlers that only log such a failure have no counterpart. Timestamps are integers
  (microseconds from the epoch); every reading of the clock is a parameter.
\<close>

type_synonym timestamp = int

record thread_row =
  thread_id :: string
  thread_account_id :: string
  thread_project_id :: string
  thread_is_public :: bool
  thread_workflow_execution :: bool
  thread_workflow_name :: "string option"
  thread_timeout :: int

text \<open>The \<open>content\<close> column holds text that \<open>_get_agent_execution_result\<close> passes to
  \<open>json.loads\<close>. The three ways that call can go are the three constructors: a JSON object
  with a \<open>content\<close> entry (and its \<open>role\<close>), any other JSON value (carrying its \<open>str\<close>), and
  text that is not JSON.\<close>

datatype msg_content =
    Json_message string string
  | Json_other string
  | Not_json string

record message_row =
  message_id :: string
  message_thread_id :: string
  message_content :: msg_content
  message_type :: string
  message_is_llm :: bool
  message_agent_id :: "string option"
  message_created_at :: timestamp

record agent_run_row =
  run_id :: string
  run_thread_id :: string
  run_agent_id :: string
  run_account_id :: "string option"
  run_status :: string
  run_started_at :: timestamp
  run_completed_at :: "timestamp option"
  run_error_message :: "string option"
  run_model_name :: string
  run_workflow_execution :: bool
  run_timeout :: int

record agent_row =
  agent_id :: string
  agent_account_id :: string
  agent_current_version_id :: "string option"

record agent_version_row =
  version_id :: string

record workflow_row =
  wf_id :: string
  wf_agent_id :: string
  wf_name :: string
  wf_description :: "string option"
  wf_status :: "string option"

text \<open>The tables, and the background tasks that were sent a cancellation (by run id).\<close>

record world =
  threads :: "thread_row list"
  messages :: "message_row list"
  agent_runs :: "agent_run_row list"
  agents :: "agent_row list"
  agent_versions :: "agent_version_row list"
  agent_workflows :: "workflow_row list"
  cancel_requests :: "string list"

text \<open>\<open>str(x)\<close> of an optional string, as an f-string renders it.\<close>

definition py_str_opt :: "string option \<Rightarrow> string" where
  "py_str_opt x = (case x of None \<Rightarrow> ''None'' | Some s \<Rightarrow> s)"

text \<open>\<open>client.table('agent_runs').update(...).eq('id', rid)\<close>.\<close>

definition update_agent_run ::
  "string \<Rightarrow> (agent_run_row \<Rightarrow> agent_run_row) \<Rightarrow> world \<Rightarrow> world" where
  "update_agent_run rid f w =
     w\<lparr>agent_runs := map (\<lambda>r. if run_id r = rid then f r else r) (agent_runs w)\<rparr>"

text \<open>The three columns written by every finalizing update.\<close>

definition set_failed :: "string \<Rightarrow> timestamp \<Rightarrow> agent_run_row \<Rightarrow> agent_run_row" where
  "set_failed error_message now r =
     r\<lparr>run_status := ''failed'', run_error_message := Some error_message,
       run_completed_at := Some now\<rparr>"


section \<open>Finalizing and reaping runs\<close>

text \<open>\<open>_mark_agent_run_as_failed\<close>: an update by id, with no test of the current status.\<close>

definition mark_agent_run_as_failed :: "timestamp \<Rightarrow> world \<Rightarrow> string \<Rightarrow> string \<Rightarrow> world" where
  "mark_agent_run_as_failed now w agent_run_id error_message =
     update_agent_run agent_run_id (set_failed error_message now) w"

text \<open>\<open>cleanup_stuck_agent_run\<close>: reads the run first and leaves a finished one alone.\<close>

definition cleanup_stuck_agent_run :: "timestamp \<Rightarrow> world \<Rightarrow> string \<Rightarrow> bool \<times> world" where
  "cleanup_stuck_agent_run now w agent_run_id =
     (case filter (\<lambda>r. run_id r = agent_run_id) (agent_runs w) of
        [] \<Rightarrow> (False, w)
      | agent_run # _ \<Rightarrow>
          if run_status agent_run \<in> set [''completed'', ''failed''] then (True, w)
          else (True, mark_agent_run_as_failed now w agent_run_id
                        ''Agent run was stuck and cleaned up''))"

text \<open>
  Times of the sweep. A \<open>datetime\<close> lies between \<open>datetime.min\<close> (year 1) and \<open>datetime.max\<close>
  (the end of year 9999), here in microseconds from the epoch; a \<open>timedelta\<close> lies between
  \<open>timedelta.min\<close> and \<open>timedelta.max\<close>. Building a \<open>timedelta\<close> and subtracting it from a
  \<open>datetime\<close> raise \<open>OverflowError\<close> outside these ranges, which is \<open>None\<close> here.
\<close>

definition minute :: int where
  "minute = 60000000"

definition datetime_min :: timestamp where
  "datetime_min = - 62135596800000000"

definition datetime_max :: timestamp where
  "datetime_max = 253402300799999999"

definition timedelta_minutes :: "int \<Rightarrow> int option" where
  "timedelta_minutes m =
     (if - 86399999913600000000 \<le> m * minute \<and> m * minute \<le> 86399999999999999999
      then Some (m * minute) else None)"

definition datetime_minus :: "timestamp \<Rightarrow> int \<Rightarrow> timestamp option" where
  "datetime_minus t delta =
     (if datetime_min \<le> t - delta \<and> t - delta \<le> datetime_max then Some (t - delta)
      else None)"

text \<open>
  \<open>cleanup_stuck_agent_runs_by_timeout\<close>. The query selects on \<open>account_id\<close>, \<open>status\<close> and
  \<open>started_at\<close>; the loop updates each selected run by its id and counts it. The clock is
  read once for the cutoff (\<open>now\<close>) and again at every update: \<open>clock 0\<close> is the reading at
  the first update, \<open>clock 1\<close> the one at the second, and so on. An \<open>OverflowError\<close> of the
  cutoff is caught by the outer handler, which returns 0.
\<close>

definition stuck_run :: "string \<Rightarrow> timestamp \<Rightarrow> agent_run_row \<Rightarrow> bool" where
  "stuck_run account_id cutoff_time r =
     (run_account_id r = Some account_id \<and> run_status r = ''running''
      \<and> run_started_at r < cutoff_time)"

definition sweep_message :: "int \<Rightarrow> string" where
  "sweep_message timeout_minutes =
     ''Agent run timed out after '' @ str_int timeout_minutes @ '' minutes''"

fun sweep_loop ::
  "(nat \<Rightarrow> timestamp) \<Rightarrow> int \<Rightarrow> agent_run_row list \<Rightarrow> int \<times> world \<Rightarrow> int \<times> world" where
  "sweep_loop clock timeout_minutes [] (cleanup_count, w) = (cleanup_count, w)"
| "sweep_loop clock timeout_minutes (run # runs) (cleanup_count, w) =
     sweep_loop (\<lambda>k. clock (Suc k)) timeout_minutes runs
       (cleanup_count + 1,
        update_agent_run (run_id run)
          (set_failed (sweep_message timeout_minutes) (clock 0)) w)"

definition cleanup_stuck_agent_runs_by_timeout ::
  "timestamp \<Rightarrow> (nat \<Rightarrow> timestamp) \<Rightarrow> world \<Rightarrow> string \<Rightarrow> int \<Rightarrow> int \<times> world" where
  "cleanup_stuck_agent_runs_by_timeout now clock w account_id timeout_minutes =
     (case timedelta_minutes timeout_minutes of
        None \<Rightarrow> (0, w)
      | Some delta \<Rightarrow>
          (case datetime_minus now delta of
             None \<Rightarrow> (0, w)
           | Some cutoff_time \<Rightarrow>
               let stuck_runs = filter (stuck_run account_id cutoff_time) (agent_runs w)
               in if stuck_runs = [] then (0, w)
                  else sweep_loop clock timeout_minutes stuck_runs (0, w)))"


section \<open>Delegated execution\<close>

text \<open>
  What the tool takes from outside: its own fields, the identifiers drawn while a request
  is built (\<open>uuid.uuid4()\<close> twice, and the key the store generates for the run), the clock
  as read when the run is created (\<open>now_start\<close>), when a timed-out run is marked
  (\<open>now_end\<close>) and when the response is stamped (\<open>now_response\<close>), and the two optional back
  ends. A back end that
  is \<open>None\<close> is one whose import raises \<open>ImportError\<close>.

  The sub-agent runtime \<open>run_agent_background\<close> is not part of this code. It is a
  parameter: given the run id, the thread id, the model, the agent configuration and the
  timeout it returns how \<open>asyncio.wait_for\<close> ended and the tables as the task left them at
  that moment. Nothing is assumed about what it wrote.

  \<open>asyncio.wait_for\<close> does not end at the deadline by itself: at the deadline it cancels the
  task and waits until the task has ended. Its outcomes are
  \<^item> \<open>Task_returned\<close>: the task returned before the deadline, and so did the wait;
  \<^item> \<open>Task_returned_late\<close>: the deadline passed, the task was cancelled, did not give in
    to the cancellation and returned later; the wait then returns like the one before;
  \<^item> \<open>Task_raised\<close>: the task ended with an exception that the general handler of
    \<open>_execute_agent_with_thread\<close> catches; the argument is the exception's text;
  \<^item> \<open>Wait_timed_out\<close>: the deadline passed, the task was cancelled and ended by that;
    only then the wait raises \<open>TimeoutError\<close>.
  A task that never ends keeps the wait from ending: that call does not return, and no
  outcome stands for it.
\<close>

datatype wait_outcome =
    Task_returned
  | Task_returned_late
  | Task_raised string
  | Wait_timed_out

record exec_result =
  exec_success :: bool
  exec_output :: "string option"
  exec_error :: "string option"

datatype service_outcome =
    Service_result exec_result
  | Service_raised string

type_synonym agent_config = "agent_row \<times> agent_version_row option"

record env =
  self_project_id :: string
  self_account_id :: string
  uuid_thread :: string
  uuid_message :: string
  generated_run_id :: string
  now_start :: timestamp
  now_end :: timestamp
  now_response :: timestamp
  execute_workflow ::
    "(string \<Rightarrow> string \<Rightarrow> string \<Rightarrow> string \<Rightarrow> world \<Rightarrow> service_outcome \<times> world) option"
  run_agent_background ::
    "(string \<Rightarrow> string \<Rightarrow> string \<Rightarrow> agent_config \<Rightarrow> int \<Rightarrow> world \<Rightarrow> wait_outcome \<times> world)
       option"

text \<open>The text \<open>_get_agent_execution_result\<close> takes from a stored message.\<close>

fun content_text :: "msg_content \<Rightarrow> string" where
  "content_text (Json_message role content) = content"
| "content_text (Json_other shown) = shown"
| "content_text (Not_json raw) = raw"

text \<open>\<open>_get_agent_execution_result\<close>. The \<open>error_message\<close> column is among those selected, so
  \<open>get\<close> finds the key and its default is never used; a null column prints as \<open>None\<close>.\<close>

definition get_agent_execution_result :: "world \<Rightarrow> string \<Rightarrow> string \<Rightarrow> string" where
  "get_agent_execution_result w agent_run_id thread =
     (case filter (\<lambda>r. run_id r = agent_run_id) (agent_runs w) of
        [] \<Rightarrow> ''Error: Could not find agent run record''
      | agent_run # _ \<Rightarrow>
          if run_status agent_run = ''failed''
          then ''Agent execution failed: '' @ py_str_opt (run_error_message agent_run)
          else if run_status agent_run \<noteq> ''completed''
          then ''Agent execution incomplete (status: '' @ run_status agent_run @ '')''
          else
            let found = sort_key message_created_at
                  (filter (\<lambda>m. message_thread_id m = thread \<and> message_type m = ''assistant'')
                     (messages w))
            in if found = [] then ''Agent completed but no response messages found''
               else
                 let result = content_text (message_content (last found));
                     result = (if length result > 2000
                               then take 1900 result @ [nl, nl]
                                      @ ''[... response truncated for brevity ...]''
                               else result)
                 in ''Agent execution completed successfully:'' @ [nl, nl] @ result)"

text \<open>The first half of \<open>_execute_agent_with_thread\<close>: the thread, the seed message and the
  run record, inserted in this order.\<close>

definition final_message :: "string \<Rightarrow> workflow_row option \<Rightarrow> string" where
  "final_message message workflow =
     (case workflow of
        None \<Rightarrow> message
      | Some flow \<Rightarrow>
          let workflow_context = ''Executing workflow '' @ [CHR 0x27] @ wf_name flow @ [CHR 0x27];
              workflow_context =
                (case wf_description flow of
                   None \<Rightarrow> workflow_context
                 | Some d \<Rightarrow> if d = [] then workflow_context else workflow_context @ '': '' @ d)
          in workflow_context @ [nl, nl] @ ''User message: '' @ message)"

definition build_request ::
  "env \<Rightarrow> world \<Rightarrow> string \<Rightarrow> string \<Rightarrow> string \<Rightarrow> int \<Rightarrow> workflow_row option \<Rightarrow> world" where
  "build_request e w agent message model_name timeout workflow =
     (let w1 = w\<lparr>threads := threads w @
                 [\<lparr>thread_id = uuid_thread e, thread_account_id = self_account_id e,
                   thread_project_id = self_project_id e, thread_is_public = False,
                   thread_workflow_execution = (workflow \<noteq> None),
                   thread_workflow_name = map_option wf_name workflow,
                   thread_timeout = timeout\<rparr>]\<rparr>;
          w2 = w1\<lparr>messages := messages w1 @
                 [\<lparr>message_id = uuid_message e, message_thread_id = uuid_thread e,
                   message_content = Json_message ''user'' (final_message message workflow),
                   message_type = ''user'', message_is_llm = False,
                   message_agent_id = Some agent, message_created_at = now_start e\<rparr>]\<rparr>
      in w2\<lparr>agent_runs := agent_runs w2 @
                 [\<lparr>run_id = generated_run_id e, run_thread_id = uuid_thread e,
                   run_agent_id = agent, run_account_id = None, run_status = ''running'',
                   run_started_at = now_start e, run_completed_at = None,
                   run_error_message = None, run_model_name = model_name,
                   run_workflow_execution = (workflow \<noteq> None), run_timeout = timeout\<rparr>]\<rparr>)"

text \<open>
  \<open>_execute_agent_with_thread\<close>. After the request is built the runtime is imported, the
  agent is looked up, the task is started and awaited. When the wait returns, in time or
  late, the result is read from the store. When it raises \<open>TimeoutError\<close> the task is sent
  \<open>cancel()\<close> once more, the run is marked as failed, and the error text is returned.
\<close>

definition timeout_text :: "int \<Rightarrow> string" where
  "timeout_text timeout =
     ''Error: Agent execution timed out after '' @ str_int timeout
       @ '' seconds. The agent may be stuck or taking too long to respond.''"

text \<open>The configuration handed to the runtime: the agent's row, with the row of its current
  version when it names one that exists. \<open>None\<close> when the agent is not found.\<close>

definition agent_configuration :: "world \<Rightarrow> string \<Rightarrow> agent_config option" where
  "agent_configuration w agent =
     (case filter (\<lambda>a. agent_id a = agent) (agents w) of
        [] \<Rightarrow> None
      | agent_config # _ \<Rightarrow>
          Some (agent_config,
                case agent_current_version_id agent_config of
                  None \<Rightarrow> None
                | Some v \<Rightarrow>
                    (case filter (\<lambda>x. version_id x = v) (agent_versions w) of
                       [] \<Rightarrow> None
                     | x # _ \<Rightarrow> Some x)))"

definition execute_agent_with_thread ::
  "env \<Rightarrow> world \<Rightarrow> string \<Rightarrow> string \<Rightarrow> string \<Rightarrow> int \<Rightarrow> workflow_row option
     \<Rightarrow> string \<times> world" where
  "execute_agent_with_thread e w agent message model_name timeout workflow =
     (let w3 = build_request e w agent message model_name timeout workflow;
          agent_run_id = generated_run_id e
      in case run_agent_background e of
           None \<Rightarrow> (''Error: Agent execution service unavailable'', w3)
         | Some runtime \<Rightarrow>
             (case agent_configuration w3 agent of
                None \<Rightarrow> (''Error: Agent '' @ agent @ '' not found'', w3)
              | Some agent_config \<Rightarrow>
                  (case runtime agent_run_id (uuid_thread e) model_name agent_config timeout w3 of
                     (Task_returned, w4) \<Rightarrow>
                       (get_agent_execution_result w4 agent_run_id (uuid_thread e), w4)
                   | (Task_returned_late, w4) \<Rightarrow>
                       (get_agent_execution_result w4 agent_run_id (uuid_thread e), w4)
                   | (Task_raised err, w4) \<Rightarrow> (''Error executing agent: '' @ err, w4)
                   | (Wait_timed_out, w4) \<Rightarrow>
                       let w5 = w4\<lparr>cancel_requests := cancel_requests w4 @ [agent_run_id]\<rparr>;
                           w6 = mark_agent_run_as_failed (now_end e) w5 agent_run_id
                                  ''Execution timed out''
                       in (timeout_text timeout, w6))))"

definition execute_agent_prompt ::
  "env \<Rightarrow> world \<Rightarrow> string \<Rightarrow> string \<Rightarrow> string \<Rightarrow> int \<Rightarrow> string \<times> world" where
  "execute_agent_prompt e w agent message model_name timeout =
     execute_agent_with_thread e w agent message model_name timeout None"

text \<open>\<open>_execute_agent_workflow\<close>: the workflow is looked up and its status tested before
  anything is executed or written.\<close>

definition inactive_text :: "workflow_row \<Rightarrow> string" where
  "inactive_text workflow =
     ''Error: Workflow '' @ wf_name workflow @ '' is not active (status: ''
       @ py_str_opt (wf_status workflow) @ '')''"

definition execute_agent_workflow ::
  "env \<Rightarrow> world \<Rightarrow> string \<Rightarrow> string \<Rightarrow> string \<Rightarrow> string \<Rightarrow> int \<Rightarrow> string \<times> world" where
  "execute_agent_workflow e w agent workflow_id message model_name timeout =
     (case filter (\<lambda>x. wf_id x = workflow_id \<and> wf_agent_id x = agent) (agent_workflows w) of
        [] \<Rightarrow> (''Error: Workflow '' @ workflow_id @ '' not found for agent '' @ agent, w)
      | workflow # _ \<Rightarrow>
          if wf_status workflow \<noteq> Some ''active'' then (inactive_text workflow, w)
          else
            (case execute_workflow e of
               None \<Rightarrow>
                 execute_agent_with_thread e w agent message model_name timeout (Some workflow)
             | Some service \<Rightarrow>
                 (case service workflow_id agent message (self_account_id e) w of
                    (Service_raised err, w') \<Rightarrow> (''Error executing workflow: '' @ err, w')
                  | (Service_result r, w') \<Rightarrow>
                      if exec_success r
                      then (case exec_output r of
                              Some out \<Rightarrow> out
                            | None \<Rightarrow> ''Workflow '' @ [CHR 0x27] @ wf_name workflow
                                        @ [CHR 0x27] @ '' executed successfully'', w')
                      else (''Workflow execution failed: ''
                              @ (case exec_error r of Some err \<Rightarrow> err
                                 | None \<Rightarrow> ''Unknown error''), w'))))"


section \<open>The entry point\<close>

datatype py_exception = ValueError string

text \<open>\<open>_verify_agent_access\<close>: raises when no agent has this id and this account.\<close>

definition verify_agent_access :: "env \<Rightarrow> world \<Rightarrow> string \<Rightarrow> py_exception + unit" where
  "verify_agent_access e w agent =
     (if filter (\<lambda>a. agent_id a = agent \<and> agent_account_id a = self_account_id e) (agents w) = []
      then Inl (ValueError ''Agent not found or access denied'')
      else Inr ())"

text \<open>The dictionary handed back to the caller. The failed one has no \<open>raw_result\<close> entry;
  here that is \<open>None\<close>, as is the entry of a completed one in \<open>full\<close> mode.\<close>

record response =
  resp_agent_id :: string
  resp_execution_mode :: string
  resp_workflow_id :: "string option"
  resp_model_used :: string
  resp_output_mode :: string
  resp_max_tokens :: int
  resp_status :: string
  resp_result :: string
  resp_raw_result :: "string option"
  resp_timestamp :: timestamp

datatype tool_output = Text string | Data response

datatype tool_result = ToolResult (result_success: bool) (result_output: tool_output)

definition fail_response :: "tool_output \<Rightarrow> tool_result" where
  "fail_response x = ToolResult False x"

definition success_response :: "tool_output \<Rightarrow> tool_result" where
  "success_response x = ToolResult True x"

text \<open>The end of \<open>call_agent\<close>: the raw result is turned into the response.\<close>

definition build_response ::
  "env \<Rightarrow> string \<Rightarrow> string \<Rightarrow> string option \<Rightarrow> string \<Rightarrow> string \<Rightarrow> int \<Rightarrow> string
     \<Rightarrow> tool_result" where
  "build_response e agent execution_mode workflow_id model_name output_mode max_tokens
       raw_result =
     (if str_contains ''Error:'' raw_result
      then fail_response (Data
             \<lparr>resp_agent_id = agent, resp_execution_mode = execution_mode,
              resp_workflow_id = (if execution_mode = ''workflow'' then workflow_id else None),
              resp_model_used = model_name, resp_output_mode = output_mode,
              resp_max_tokens = max_tokens, resp_status = ''failed'',
              resp_result = raw_result, resp_raw_result = None,
              resp_timestamp = now_response e\<rparr>)
      else
        let processed_result =
              (if output_mode = ''last_message'' then extract_last_message raw_result
               else if output_mode = ''full'' then truncate_from_end raw_result max_tokens
               else raw_result)
        in success_response (Data
             \<lparr>resp_agent_id = agent, resp_execution_mode = execution_mode,
              resp_workflow_id = (if execution_mode = ''workflow'' then workflow_id else None),
              resp_model_used = model_name, resp_output_mode = output_mode,
              resp_max_tokens = max_tokens, resp_status = ''completed'',
              resp_result = processed_result,
              resp_raw_result = (if output_mode = ''last_message'' then Some raw_result else None),
              resp_timestamp = now_response e\<rparr>))"

text \<open>The middle of \<open>call_agent\<close>, once the parameters have their effective values: the
  execution in the requested mode, then the response. It is reached in \<open>workflow\<close> mode only
  with a workflow id.\<close>

definition run_delegation ::
  "env \<Rightarrow> world \<Rightarrow> string \<Rightarrow> string \<Rightarrow> string \<Rightarrow> string option \<Rightarrow> string \<Rightarrow> int \<Rightarrow> int
     \<Rightarrow> string \<Rightarrow> tool_result \<times> world" where
  "run_delegation e w agent message execution_mode workflow_id model_name timeout max_tokens
       output_mode =
     (let (raw_result, w') =
            (case (execution_mode = ''workflow'', workflow_id) of
               (True, Some wid) \<Rightarrow>
                 execute_agent_workflow e w agent wid message model_name timeout
             | _ \<Rightarrow> execute_agent_prompt e w agent message model_name timeout)
      in (build_response e agent execution_mode workflow_id model_name output_mode max_tokens
            raw_result, w'))"

text \<open>\<open>call_agent\<close>. \<open>not workflow_id\<close> holds for \<open>None\<close> and for the empty string.\<close>

definition call_agent ::
  "env \<Rightarrow> world \<Rightarrow> string \<Rightarrow> string \<Rightarrow> string \<Rightarrow> string option \<Rightarrow> string option \<Rightarrow> int \<Rightarrow> int
     \<Rightarrow> string \<Rightarrow> tool_result \<times> world" where
  "call_agent e w agent message execution_mode workflow_id model_name timeout max_tokens
       output_mode =
     (if execution_mode \<notin> set [''prompt'', ''workflow'']
      then (fail_response (Text
              (''Error: execution_mode must be either '' @ [CHR 0x27] @ ''prompt'' @ [CHR 0x27]
                 @ '' or '' @ [CHR 0x27] @ ''workflow'' @ [CHR 0x27])), w)
      else if execution_mode = ''workflow'' \<and> (workflow_id = None \<or> workflow_id = Some [])
      then (fail_response (Text
              (''Error: workflow_id is required when execution_mode is '' @ [CHR 0x27]
                 @ ''workflow'' @ [CHR 0x27])), w)
      else
        case verify_agent_access e w agent of
          Inl (ValueError err) \<Rightarrow> (fail_response (Text (''Error calling agent: '' @ err)), w)
        | Inr _ \<Rightarrow>
            let model_name = get_fallback_model model_name;
                timeout = max 60 (min 1800 timeout);
                max_tokens = max 100 (min 4000 max_tokens);
                output_mode = (if output_mode \<notin> set [''last_message'', ''full'']
                               then ''last_message'' else output_mode)
            in run_delegation e w agent message execution_mode workflow_id model_name timeout
                 max_tokens output_mode)"


section \<open>The specification's reading of last-message extraction\<close>

text \<open>
  Written from the specification, to be compared with \<open>extract_last_message\<close>: scan from
  the end for the first non-empty line that is not a heading or a fence; return it with up
  to 3 preceding lines; if there is none, return the trailing 20 percent of the characters
  of a transcript of more than 100 characters, and otherwise the whole transcript.
\<close>

definition spec_last_message :: "string \<Rightarrow> string" where
  "spec_last_message transcript =
     (let lines = split_nl transcript in
      case find (\<lambda>i. substantial (lines ! i)) (rev [0..<length lines]) of
        Some i \<Rightarrow> join_nl (take (Suc i - (i - 3)) (drop (i - 3) lines))
      | None \<Rightarrow>
          if length transcript > 100
          then drop (length transcript - length transcript div 5) transcript
          else transcript)"


section \<open>Example data\<close>

text \<open>An account \<open>acct\<close> with one agent \<open>A1\<close> that owns a paused workflow, and two runs of
  that account still marked as running: \<open>r31\<close> started at time 0, \<open>r10\<close> 21 minutes later.\<close>

definition example_run :: "string \<Rightarrow> timestamp \<Rightarrow> agent_run_row" where
  "example_run rid started =
     \<lparr>run_id = rid, run_thread_id = ''t0'', run_agent_id = ''A1'',
      run_account_id = Some ''acct'', run_status = ''running'', run_started_at = started,
      run_completed_at = None, run_error_message = None, run_model_name = ''openai/gpt'',
      run_workflow_execution = False, run_timeout = 300\<rparr>"

definition example_world :: world where
  "example_world =
     \<lparr>threads = [], messages = [],
      agent_runs = [example_run ''r31'' 0, example_run ''r10'' (21 * minute)],
      agents = [\<lparr>agent_id = ''A1'', agent_account_id = ''acct'',
                 agent_current_version_id = None\<rparr>],
      agent_versions = [],
      agent_workflows = [\<lparr>wf_id = ''W1'', wf_agent_id = ''A1'', wf_name = ''report'',
                          wf_description = None, wf_status = Some ''paused''\<rparr>],
      cancel_requests = []\<rparr>"

text \<open>Three runtimes. The first has not finished at the deadline and ends when it is
  cancelled. The second has not finished at the deadline either, does not give in to the
  cancellation and returns later, having written nothing. The third answers in time: it
  appends the answer to the thread and completes the run.\<close>

definition runtime_never_finishes ::
  "string \<Rightarrow> string \<Rightarrow> string \<Rightarrow> agent_config \<Rightarrow> int \<Rightarrow> world \<Rightarrow> wait_outcome \<times> world" where
  "runtime_never_finishes rid thread model_name config timeout w = (Wait_timed_out, w)"


definition runtime_answers ::
  "string \<Rightarrow> string \<Rightarrow> string \<Rightarrow> string \<Rightarrow> agent_config \<Rightarrow> int \<Rightarrow> world
     \<Rightarrow> wait_outcome \<times> world" where
  "runtime_answers answer rid thread model_name config timeout w =
     (Task_returned,
      update_agent_run rid (\<lambda>r. r\<lparr>run_status := ''completed'', run_completed_at := Some (42 * minute)\<rparr>)
        (w\<lparr>messages := messages w @
             [\<lparr>message_id = ''m2'', message_thread_id = thread,
               message_content = Json_message ''assistant'' answer,
               message_type = ''assistant'', message_is_llm = True,
               message_agent_id = None, message_created_at = 42 * minute\<rparr>]\<rparr>))"

text \<open>A clock for the sweep: its first update happens at minute 32, each later one a
  microsecond after the one before.\<close>

definition example_clock :: "nat \<Rightarrow> timestamp" where
  "example_clock k = 32 * minute + int k"

definition example_env ::
  "(string \<Rightarrow> string \<Rightarrow> string \<Rightarrow> agent_config \<Rightarrow> int \<Rightarrow> world \<Rightarrow> wait_outcome \<times> world)
     \<Rightarrow> env" where
  "example_env runtime =
     \<lparr>self_project_id = ''p'', self_account_id = ''acct'', uuid_thread = ''t1'',
      uuid_message = ''m1'', generated_run_id = ''r1'', now_start = 40 * minute,
      now_end = 45 * minute, now_response = 46 * minute, execute_workflow = None,
      run_agent_background = Some runtime\<rparr>"


section \<open>Facts about the string operations\<close>

text \<open>\<open>strip\<close> leaves nothing exactly when every character is white space; \<open>str_contains\<close>
  is the occurrence of a contiguous block; a number below \<open>10 ^ k\<close> prints in at most \<open>k\<close>
  digits.\<close>

lemma strip_eq_Nil_iff: "strip s = [] \<longleftrightarrow> (\<forall>c\<in>set s. is_space c)"
proof
  assume "strip s = []"
  then have a: "\<forall>x\<in>set (dropWhile is_space s). is_space x"
    by (simp add: strip_def)
  have "dropWhile is_space s = []"
  proof (rule ccontr)
    assume n: "dropWhile is_space s \<noteq> []"
    then have "\<not> is_space (hd (dropWhile is_space s))" by (rule hd_dropWhile)
    moreover have "hd (dropWhile is_space s) \<in> set (dropWhile is_space s)"
      using n by simp
    ultimately show False using a by blast
  qed
  then show "\<forall>c\<in>set s. is_space c" by simp
next
  assume "\<forall>c\<in>set s. is_space c"
  then have d: "dropWhile is_space s = []" by simp
  show "strip s = []" unfolding strip_def d by simp
qed

lemma str_contains_iff: "str_contains p s \<longleftrightarrow> (\<exists>u v. s = u @ p @ v)"
proof (induction s)
  case Nil
  show ?case by auto
next
  case (Cons c cs)
  have "(\<exists>u v. c # cs = u @ p @ v) \<longleftrightarrow> (prefix p (c # cs) \<or> (\<exists>u v. cs = u @ p @ v))"
  proof
    assume "\<exists>u v. c # cs = u @ p @ v"
    then obtain u v where e: "c # cs = u @ p @ v" by blast
    show "prefix p (c # cs) \<or> (\<exists>u v. cs = u @ p @ v)"
    proof (cases u)
      case Nil
      with e show ?thesis by (auto simp: prefix_def)
    next
      case (Cons a u')
      with e have "cs = u' @ p @ v" by simp
      then show ?thesis by blast
    qed
  next
    assume "prefix p (c # cs) \<or> (\<exists>u v. cs = u @ p @ v)"
    then show "\<exists>u v. c # cs = u @ p @ v"
    proof
      assume "prefix p (c # cs)"
      then obtain v where "c # cs = p @ v" by (auto simp: prefix_def)
      then have "c # cs = [] @ p @ v" by simp
      then show ?thesis by blast
    next
      assume "\<exists>u v. cs = u @ p @ v"
      then obtain u v where "cs = u @ p @ v" by blast
      then have "c # cs = (c # u) @ p @ v" by simp
      then show ?thesis by blast
    qed
  qed
  with Cons show ?case by simp
qed

lemma length_str_nat: "0 < k \<Longrightarrow> n < 10 ^ k \<Longrightarrow> length (str_nat n) \<le> k"
proof (induction k arbitrary: n)
  case 0
  then show ?case by simp
next
  case (Suc k)
  show ?case
  proof (cases "n < 10")
    case True
    then show ?thesis by (simp add: str_nat.simps)
  next
    case False
    then have k: "0 < k" using Suc.prems by (cases k) auto
    have "n div 10 < 10 ^ k" using Suc.prems by (simp add: less_mult_imp_div_less mult.commute)
    with Suc.IH k have "length (str_nat (n div 10)) \<le> k" by blast
    with False show ?thesis by (subst str_nat.simps) simp
  qed
qed


section \<open>Properties of result extraction and model resolution\<close>

text \<open>
  Claim C10. For every transcript that is empty or consists only of white space (the
  characters that \<open>str.strip()\<close> removes, the no-break space and the next-line control
  included), last-message extraction returns the fixed string \<open>No output received\<close>, not
  the transcript and not an error.
\<close>

theorem extract_last_message_blank:
  "\<forall>c\<in>set transcript. is_space c \<Longrightarrow> extract_last_message transcript = ''No output received''"
  by (simp add: extract_last_message_def strip_eq_Nil_iff)

theorem extract_last_message_blank_witness:
  "list_all is_space ('' '' @ [nl] @ [CHR 0xA0, CHR 0x85])
   \<and> extract_last_message ('' '' @ [nl] @ [CHR 0xA0, CHR 0x85]) = ''No output received''"
proof -
  have h: "\<forall>c\<in>set ('' '' @ [nl] @ [CHR 0xA0, CHR 0x85]). is_space c"
    by (simp add: is_space_def nl_def)
  then have "list_all is_space ('' '' @ [nl] @ [CHR 0xA0, CHR 0x85])"
    by (simp only: list_all_iff)
  with extract_last_message_blank [OF h] show ?thesis by (rule conjI [rotated])
qed

text \<open>
  Claim C5. Model resolution is a total function of its argument alone: a requested name
  whose lower-case form contains one of the provider names \<open>openrouter\<close>, \<open>anthropic\<close>,
  \<open>openai\<close>, \<open>google\<close> is returned unchanged; every other request, the absent one
  included, yields the one fixed default model. There is no error result.
\<close>

theorem get_fallback_model_total:
  "get_fallback_model None = ''openrouter/google/gemini-2.5-flash''
   \<and> get_fallback_model (Some m) =
       (if \<exists>p\<in>{''openrouter'', ''anthropic'', ''openai'', ''google''}. \<exists>u v. lower m = u @ p @ v
        then m else ''openrouter/google/gemini-2.5-flash'')"
proof -
  have ne: "m \<noteq> []" if "\<exists>p\<in>{''openrouter'', ''anthropic'', ''openai'', ''google''}. \<exists>u v. lower m = u @ p @ v"
    using that by (auto simp: lower_def)
  have "list_ex (\<lambda>provider. str_contains provider (lower m)) providers
        \<longleftrightarrow> (\<exists>p\<in>{''openrouter'', ''anthropic'', ''openai'', ''google''}. \<exists>u v. lower m = u @ p @ v)"
    by (simp add: providers_def str_contains_iff)
  then show ?thesis
    using ne unfolding get_fallback_model_def fallback_model_def by auto
qed

theorem get_fallback_model_total_witness:
  "(\<exists>p\<in>{''openrouter'', ''anthropic'', ''openai'', ''google''}.
       \<exists>u v. lower ''OpenAI/gpt-4o'' = u @ p @ v)
   \<and> get_fallback_model (Some ''OpenAI/gpt-4o'') = ''OpenAI/gpt-4o''
   \<and> get_fallback_model (Some ''gpt-4o'') = ''openrouter/google/gemini-2.5-flash''"
proof -
  have l: "lower ''OpenAI/gpt-4o'' = [] @ ''openai'' @ ''/gpt-4o''" by code_simp
  then have ex: "\<exists>p\<in>{''openrouter'', ''anthropic'', ''openai'', ''google''}.
       \<exists>u v. lower ''OpenAI/gpt-4o'' = u @ p @ v" by blast
  have a: "get_fallback_model (Some ''OpenAI/gpt-4o'') = ''OpenAI/gpt-4o''"
    using get_fallback_model_total [of "''OpenAI/gpt-4o''"] ex by simp
  have b: "get_fallback_model (Some ''gpt-4o'') = ''openrouter/google/gemini-2.5-flash''"
    by code_simp
  from ex a b show ?thesis by blast
qed

text \<open>
  Claim C6. For every text and every positive token budget, full-mode extraction returns a
  text of at most \<open>budget * 4\<close> characters unchanged; a longer one is cut to its trailing
  \<open>budget * 4\<close> characters, which are exactly the retained part, behind a prefix that
  states the number of characters left out. The prefix is 30 characters and the digits of
  that number, so for a text of fewer than \<open>2 ^ 63\<close> characters (the most a Python string
  can hold) the output is at most \<open>budget * 4 + 49\<close> characters long. In both cases the
  output ends with the trailing \<open>budget * 4\<close> characters of the input.
\<close>

theorem truncate_from_end_full_mode:
  assumes "0 < budget"
  shows "(int (length text) \<le> budget * 4 \<longrightarrow> truncate_from_end text budget = text)
     \<and> (budget * 4 < int (length text) \<longrightarrow>
          truncate_from_end text budget =
            ''...[truncated '' @ str_nat (length text - nat (budget * 4)) @ '' characters]...''
              @ [nl] @ drop (length text - nat (budget * 4)) text
          \<and> length (drop (length text - nat (budget * 4)) text) = nat (budget * 4))
     \<and> suffix (drop (length text - nat (budget * 4)) text) (truncate_from_end text budget)
     \<and> (length text < 2 ^ 63 \<longrightarrow> int (length (truncate_from_end text budget)) \<le> budget * 4 + 49)"
proof -
  let ?k = "length text - nat (budget * 4)"
  have short: "truncate_from_end text budget = text" if "int (length text) \<le> budget * 4"
    using that assms by (simp add: truncate_from_end_def)
  have nk: "nat (int (length text) - budget * 4) = ?k" using assms by linarith
  have long: "truncate_from_end text budget =
            ''...[truncated '' @ str_nat ?k @ '' characters]...'' @ [nl] @ drop ?k text"
    if "budget * 4 < int (length text)"
    using that assms nk by (simp add: truncate_from_end_def Let_def str_int_def)
  have len: "length (drop ?k text) = nat (budget * 4)" if "budget * 4 < int (length text)"
    using that assms by simp
  have suf: "suffix (drop ?k text) (truncate_from_end text budget)"
  proof (cases "int (length text) \<le> budget * 4")
    case True
    then have "?k = 0" by linarith
    with short[OF True] show ?thesis by simp
  next
    case False
    then have "truncate_from_end text budget =
       (''...[truncated '' @ str_nat ?k @ '' characters]...'' @ [nl]) @ drop ?k text"
      using long by simp
    then show ?thesis by (rule suffixI)
  qed
  have bound: "int (length (truncate_from_end text budget)) \<le> budget * 4 + 49"
    if b: "length text < 2 ^ 63"
  proof (cases "int (length text) \<le> budget * 4")
    case True
    with short show ?thesis by simp
  next
    case False
    have "?k < 10 ^ 19" using b by simp
    then have "length (str_nat ?k) \<le> 19" by (intro length_str_nat) simp_all
    moreover have "length (truncate_from_end text budget) = 30 + length (str_nat ?k) + nat (budget * 4)"
      using False long len by simp
    ultimately show ?thesis using assms by linarith
  qed
  from short long len suf bound show ?thesis by blast
qed

theorem truncate_from_end_full_mode_witness:
  "(0::int) < 2 \<and> (2::int) * 4 < int (length ''hello world, this is text'')
   \<and> truncate_from_end ''hello world, this is text'' 2
       = ''...[truncated 17 characters]...'' @ [nl] @ '' is text''"
proof -
  have h: "(0::int) < 2" by simp
  have l: "(2::int) * 4 < int (length ''hello world, this is text'')" by simp
  have d: "str_nat 17 = ''17''" by code_simp
  have k: "length ''hello world, this is text'' - nat (2 * 4) = 17" by simp
  from truncate_from_end_full_mode [OF h, of "''hello world, this is text''"] l
  have "truncate_from_end ''hello world, this is text'' 2
       = ''...[truncated '' @ str_nat (length ''hello world, this is text'' - nat (2 * 4))
           @ '' characters]...'' @ [nl] @ drop (length ''hello world, this is text'' - nat (2 * 4))
               ''hello world, this is text''"
    by blast
  then have "truncate_from_end ''hello world, this is text'' 2
       = ''...[truncated 17 characters]...'' @ [nl] @ '' is text''"
    unfolding k d by simp
  with h l show ?thesis by blast
qed


section \<open>Properties of the entry point\<close>

text \<open>
  Claim C3. For every invocation of \<open>call_agent\<close> the timeout used for the execution is the
  requested one clamped into 60..1800 and the token limit is the requested one clamped into
  100..4000: a value below the range becomes its lower end, a value above it the upper end.
  A value outside the range is not rejected: the call behaves as the call with the clamped
  values does, and once the mode is valid and access is granted it is the delegation run
  with the clamped values.
\<close>

theorem call_agent_clamps_parameters:
  "call_agent e w a m em wid mn t mt om =
     call_agent e w a m em wid mn
       (if t < 60 then 60 else if 1800 < t then 1800 else t)
       (if mt < 100 then 100 else if 4000 < mt then 4000 else mt) om
   \<and> (em \<in> {''prompt'', ''workflow''}
        \<and> (em = ''workflow'' \<longrightarrow> wid \<noteq> None \<and> wid \<noteq> Some [])
        \<and> verify_agent_access e w a = Inr ()
      \<longrightarrow> call_agent e w a m em wid mn t mt om =
            run_delegation e w a m em wid (get_fallback_model mn)
              (if t < 60 then 60 else if 1800 < t then 1800 else t)
              (if mt < 100 then 100 else if 4000 < mt then 4000 else mt)
              (if om \<in> {''last_message'', ''full''} then om else ''last_message''))"
proof -
  have ct: "max 60 (min 1800 t) = (if t < 60 then 60 else if 1800 < t then 1800 else t)"
    by simp
  have cm: "max 100 (min 4000 mt) = (if mt < 100 then 100 else if 4000 < mt then 4000 else mt)"
    by simp
  have it: "max 60 (min 1800 (max 60 (min 1800 t))) = max 60 (min 1800 t)" by simp
  have im: "max 100 (min 4000 (max 100 (min 4000 mt))) = max 100 (min 4000 mt)" by simp
  have a: "call_agent e w a m em wid mn t mt om =
     call_agent e w a m em wid mn (max 60 (min 1800 t)) (max 100 (min 4000 mt)) om"
    unfolding call_agent_def it im ..
  have b: "call_agent e w a m em wid mn t mt om =
            run_delegation e w a m em wid (get_fallback_model mn)
              (max 60 (min 1800 t)) (max 100 (min 4000 mt))
              (if om \<in> {''last_message'', ''full''} then om else ''last_message'')"
    if "em \<in> {''prompt'', ''workflow''}" "em = ''workflow'' \<longrightarrow> wid \<noteq> None \<and> wid \<noteq> Some []"
       "verify_agent_access e w a = Inr ()"
    using that unfolding call_agent_def Let_def by auto
  from a b show ?thesis unfolding ct cm by blast
qed

theorem call_agent_clamps_parameters_witness:
  "call_agent (example_env runtime_never_finishes) example_world ''A1'' ''ping'' ''prompt''
       None None 5 9999 ''last_message''
     = call_agent (example_env runtime_never_finishes) example_world ''A1'' ''ping'' ''prompt''
         None None 60 4000 ''last_message''
   \<and> call_agent (example_env runtime_never_finishes) example_world ''A1'' ''ping'' ''prompt''
       None None 5 9999 ''last_message''
     = run_delegation (example_env runtime_never_finishes) example_world ''A1'' ''ping''
         ''prompt'' None ''openrouter/google/gemini-2.5-flash'' 60 4000 ''last_message''"
proof -
  have acc: "verify_agent_access (example_env runtime_never_finishes) example_world ''A1''
               = Inr ()"
    by (simp add: verify_agent_access_def example_env_def example_world_def)
  have fb: "get_fallback_model None = ''openrouter/google/gemini-2.5-flash''"
    by (simp add: get_fallback_model_def fallback_model_def)
  note inst = call_agent_clamps_parameters [of "example_env runtime_never_finishes"
      example_world "''A1''" "''ping''" "''prompt''" None None 5 9999 "''last_message''"]
  have c1: "call_agent (example_env runtime_never_finishes) example_world ''A1'' ''ping''
       ''prompt'' None None 5 9999 ''last_message''
     = call_agent (example_env runtime_never_finishes) example_world ''A1'' ''ping'' ''prompt''
         None None 60 4000 ''last_message''"
    using inst [THEN conjunct1] by simp
  have c2: "call_agent (example_env runtime_never_finishes) example_world ''A1'' ''ping''
       ''prompt'' None None 5 9999 ''last_message''
     = run_delegation (example_env runtime_never_finishes) example_world ''A1'' ''ping''
         ''prompt'' None ''openrouter/google/gemini-2.5-flash'' 60 4000 ''last_message''"
    using inst [THEN conjunct2] acc fb by simp
  from c1 c2 show ?thesis by (rule conjI)
qed

text \<open>A text that starts with the marker contains it, and a raw result that contains it
  becomes a failed response.\<close>

lemma str_contains_prefix: "prefix p s \<Longrightarrow> str_contains p s"
  by (cases s) auto

lemma build_response_error:
  "str_contains ''Error:'' raw \<Longrightarrow>
     build_response e a em wid mn om mt raw =
       fail_response (Data
             \<lparr>resp_agent_id = a, resp_execution_mode = em,
              resp_workflow_id = (if em = ''workflow'' then wid else None),
              resp_model_used = mn, resp_output_mode = om,
              resp_max_tokens = mt, resp_status = ''failed'',
              resp_result = raw, resp_raw_result = None,
              resp_timestamp = now_response e\<rparr>)"
  by (simp add: build_response_def)

text \<open>
  Claim C4. For every workflow-mode invocation whose workflow exists for the agent but has a
  status other than \<open>active\<close>, the workflow execution returns the inactive-workflow error
  and leaves every table as it was, so no thread, message or run record is created;
  \<open>call_agent\<close> returns a failure and the same tables.
\<close>

theorem inactive_workflow_fails_fast:
  assumes sel: "filter (\<lambda>x. wf_id x = wid \<and> wf_agent_id x = a) (agent_workflows w) = flow # others"
    and inactive: "wf_status flow \<noteq> Some ''active''"
  shows "execute_agent_workflow e w a wid msg model t =
           (''Error: Workflow '' @ wf_name flow @ '' is not active (status: ''
              @ (case wf_status flow of None \<Rightarrow> ''None'' | Some s \<Rightarrow> s) @ '')'', w)
     \<and> snd (call_agent e w a msg ''workflow'' (Some wid) mn t mt om) = w
     \<and> \<not> result_success (fst (call_agent e w a msg ''workflow'' (Some wid) mn t mt om))"
proof -
  have x: "execute_agent_workflow e w a wid msg model t = (inactive_text flow, w)" for model t
    using sel inactive by (simp add: execute_agent_workflow_def)
  have err: "str_contains ''Error:'' (inactive_text flow)"
    by (rule str_contains_prefix) (simp add: inactive_text_def)
  have c: "call_agent e w a msg ''workflow'' (Some wid) mn t mt om = (r, w') \<Longrightarrow> w' = w \<and> \<not> result_success r" for r w'
    unfolding call_agent_def run_delegation_def Let_def
    by (auto simp: x build_response_error[OF err] fail_response_def split: if_splits sum.splits py_exception.splits)
  have "snd (call_agent e w a msg ''workflow'' (Some wid) mn t mt om) = w
     \<and> \<not> result_success (fst (call_agent e w a msg ''workflow'' (Some wid) mn t mt om))"
    using c[of "fst (call_agent e w a msg ''workflow'' (Some wid) mn t mt om)" "snd (call_agent e w a msg ''workflow'' (Some wid) mn t mt om)"]
    by simp
  with x[of model t] show ?thesis by (simp add: inactive_text_def py_str_opt_def)
qed

theorem inactive_workflow_fails_fast_witness:
  "execute_agent_workflow (example_env runtime_never_finishes) example_world ''A1'' ''W1''
       ''go'' ''openai/gpt'' 60
     = (''Error: Workflow report is not active (status: paused)'', example_world)
   \<and> snd (call_agent (example_env runtime_never_finishes) example_world ''A1'' ''go''
            ''workflow'' (Some ''W1'') None 60 1000 ''full'') = example_world"
proof -
  have sel: "filter (\<lambda>x. wf_id x = ''W1'' \<and> wf_agent_id x = ''A1'')
               (agent_workflows example_world)
             = \<lparr>wf_id = ''W1'', wf_agent_id = ''A1'', wf_name = ''report'',
                 wf_description = None, wf_status = Some ''paused''\<rparr> # []"
    by (simp add: example_world_def)
  have inactive: "wf_status \<lparr>wf_id = ''W1'', wf_agent_id = ''A1'', wf_name = ''report'',
                 wf_description = None, wf_status = Some ''paused''\<rparr> \<noteq> Some ''active''"
    by simp
  from inactive_workflow_fails_fast [OF sel inactive,
      where e = "example_env runtime_never_finishes" and msg = "''go''"
        and model = "''openai/gpt''" and t = 60 and mn = None and mt = 1000 and om = "''full''"]
  show ?thesis by simp
qed

text \<open>
  Claim C9. \<open>call_agent\<close> classifies the outcome of a delegation by the raw result text
  alone: a raw result in which \<open>Error:\<close> occurs gives a failed response that carries the raw
  text unprocessed, every other raw result gives a completed response with the text
  processed by the output mode. With access granted, the response of \<open>call_agent\<close> is the
  one built in this way from the raw result of the execution, in prompt mode and in
  workflow mode alike. So a run that completed with an answer in which \<open>Error:\<close> occurs is
  reported as failed, which the instance after the theorem shows.
\<close>

theorem call_agent_classifies_by_error_text:
  "((\<exists>u v. raw = u @ ''Error:'' @ v) \<longrightarrow>
      build_response e a em wid mn om mt raw =
        ToolResult False (Data
          \<lparr>resp_agent_id = a, resp_execution_mode = em,
           resp_workflow_id = (if em = ''workflow'' then wid else None),
           resp_model_used = mn, resp_output_mode = om, resp_max_tokens = mt,
           resp_status = ''failed'', resp_result = raw, resp_raw_result = None,
           resp_timestamp = now_response e\<rparr>))
   \<and> (\<not> (\<exists>u v. raw = u @ ''Error:'' @ v) \<longrightarrow>
      (\<exists>d. build_response e a em wid mn om mt raw = ToolResult True (Data d)
           \<and> resp_status d = ''completed''
           \<and> resp_result d =
               (if om = ''last_message'' then extract_last_message raw
                else if om = ''full'' then truncate_from_end raw mt else raw)))
   \<and> (verify_agent_access e w a = Inr () \<longrightarrow>
        call_agent e w a m ''prompt'' wid req t mt om =
          (build_response e a ''prompt'' wid (get_fallback_model req)
             (if om \<in> {''last_message'', ''full''} then om else ''last_message'')
             (max 100 (min 4000 mt))
             (fst (execute_agent_prompt e w a m (get_fallback_model req) (max 60 (min 1800 t)))),
           snd (execute_agent_prompt e w a m (get_fallback_model req) (max 60 (min 1800 t)))))
   \<and> (verify_agent_access e w a = Inr () \<and> flow_id \<noteq> [] \<longrightarrow>
        call_agent e w a m ''workflow'' (Some flow_id) req t mt om =
          (build_response e a ''workflow'' (Some flow_id) (get_fallback_model req)
             (if om \<in> {''last_message'', ''full''} then om else ''last_message'')
             (max 100 (min 4000 mt))
             (fst (execute_agent_workflow e w a flow_id m (get_fallback_model req)
                     (max 60 (min 1800 t)))),
           snd (execute_agent_workflow e w a flow_id m (get_fallback_model req)
                  (max 60 (min 1800 t)))))"
proof -
  have 1: "build_response e a em wid mn om mt raw =
        ToolResult False (Data
          \<lparr>resp_agent_id = a, resp_execution_mode = em,
           resp_workflow_id = (if em = ''workflow'' then wid else None),
           resp_model_used = mn, resp_output_mode = om, resp_max_tokens = mt,
           resp_status = ''failed'', resp_result = raw, resp_raw_result = None,
           resp_timestamp = now_response e\<rparr>)"
    if "\<exists>u v. raw = u @ ''Error:'' @ v"
  proof -
    from that have "str_contains ''Error:'' raw" using str_contains_iff by blast
    then show ?thesis by (simp add: build_response_def fail_response_def)
  qed
  have 2: "\<exists>d. build_response e a em wid mn om mt raw = ToolResult True (Data d)
           \<and> resp_status d = ''completed''
           \<and> resp_result d =
               (if om = ''last_message'' then extract_last_message raw
                else if om = ''full'' then truncate_from_end raw mt else raw)"
    if "\<not> (\<exists>u v. raw = u @ ''Error:'' @ v)"
  proof -
    from that have "\<not> str_contains ''Error:'' raw" using str_contains_iff by blast
    then show ?thesis by (simp add: build_response_def success_response_def Let_def)
  qed
  have 3: "call_agent e w a m ''prompt'' wid req t mt om =
          (build_response e a ''prompt'' wid (get_fallback_model req)
             (if om \<in> {''last_message'', ''full''} then om else ''last_message'')
             (max 100 (min 4000 mt))
             (fst (execute_agent_prompt e w a m (get_fallback_model req) (max 60 (min 1800 t)))),
           snd (execute_agent_prompt e w a m (get_fallback_model req) (max 60 (min 1800 t))))"
    if "verify_agent_access e w a = Inr ()"
    using that unfolding call_agent_def run_delegation_def Let_def
    by (auto simp: split_beta)
  have 4: "call_agent e w a m ''workflow'' (Some flow_id) req t mt om =
          (build_response e a ''workflow'' (Some flow_id) (get_fallback_model req)
             (if om \<in> {''last_message'', ''full''} then om else ''last_message'')
             (max 100 (min 4000 mt))
             (fst (execute_agent_workflow e w a flow_id m (get_fallback_model req)
                     (max 60 (min 1800 t)))),
           snd (execute_agent_workflow e w a flow_id m (get_fallback_model req)
                  (max 60 (min 1800 t))))"
    if "verify_agent_access e w a = Inr ()" "flow_id \<noteq> []"
    using that unfolding call_agent_def run_delegation_def Let_def
    by (auto simp: split_beta)
  from 1 2 3 4 show ?thesis by blast
qed

theorem call_agent_classifies_by_error_text_witness:
  "fst (call_agent (example_env (runtime_answers ''Error: none'')) example_world ''A1''
          ''ping'' ''prompt'' None None 300 1000 ''last_message'')
     = ToolResult False (Data
         \<lparr>resp_agent_id = ''A1'', resp_execution_mode = ''prompt'', resp_workflow_id = None,
          resp_model_used = ''openrouter/google/gemini-2.5-flash'',
          resp_output_mode = ''last_message'', resp_max_tokens = 1000,
          resp_status = ''failed'',
          resp_result = ''Agent execution completed successfully:'' @ [nl, nl] @ ''Error: none'',
          resp_raw_result = None, resp_timestamp = 46 * minute\<rparr>)
   \<and> map run_status (filter (\<lambda>r. run_id r = ''r1'')
        (agent_runs (snd (call_agent (example_env (runtime_answers ''Error: none''))
           example_world ''A1'' ''ping'' ''prompt'' None None 300 1000 ''last_message''))))
       = [''completed'']
   \<and> fst (call_agent (example_env runtime_never_finishes) example_world ''A1'' ''go''
          ''workflow'' (Some ''W1'') None 300 1000 ''full'')
     = ToolResult False (Data
         \<lparr>resp_agent_id = ''A1'', resp_execution_mode = ''workflow'',
          resp_workflow_id = Some ''W1'',
          resp_model_used = ''openrouter/google/gemini-2.5-flash'',
          resp_output_mode = ''full'', resp_max_tokens = 1000, resp_status = ''failed'',
          resp_result = ''Error: Workflow report is not active (status: paused)'',
          resp_raw_result = None, resp_timestamp = 46 * minute\<rparr>)"
proof -
  let ?e = "example_env (runtime_answers ''Error: none'')"
  let ?x = "execute_agent_prompt ?e example_world ''A1'' ''ping''
              ''openrouter/google/gemini-2.5-flash'' 300"
  let ?f = "example_env runtime_never_finishes"
  let ?y = "execute_agent_workflow ?f example_world ''A1'' ''W1'' ''go''
              ''openrouter/google/gemini-2.5-flash'' 300"
  have acc: "verify_agent_access ?e example_world ''A1'' = Inr ()"
    by (simp add: verify_agent_access_def example_env_def example_world_def)
  have acc': "verify_agent_access ?f example_world ''A1'' = Inr ()"
    by (simp add: verify_agent_access_def example_env_def example_world_def)
  have fb: "get_fallback_model None = ''openrouter/google/gemini-2.5-flash''"
    by (simp add: get_fallback_model_def fallback_model_def)
  have raw: "fst ?x = (''Agent execution completed successfully:'' @ [nl, nl])
                        @ ''Error:'' @ '' none''"
    by code_simp
  have runs: "map run_status (filter (\<lambda>r. run_id r = ''r1'') (agent_runs (snd ?x)))
                = [''completed'']"
    by code_simp
  have raw': "fst ?y = [] @ ''Error:'' @ '' Workflow report is not active (status: paused)''"
    by code_simp
  have ts: "now_response ?e = 46 * minute" "now_response ?f = 46 * minute"
    by (simp_all add: example_env_def)
  note inst = call_agent_classifies_by_error_text [where e = ?e and w = example_world
      and a = "''A1''" and m = "''ping''" and wid = None and req = None and t = 300
      and mt = 1000 and om = "''last_message''" and raw = "fst ?x" and em = "''prompt''"
      and mn = "''openrouter/google/gemini-2.5-flash''"]
  note inst' = call_agent_classifies_by_error_text [where e = ?f and w = example_world
      and a = "''A1''" and m = "''go''" and wid = "Some ''W1''" and req = None and t = 300
      and mt = 1000 and om = "''full''" and raw = "fst ?y" and em = "''workflow''"
      and mn = "''openrouter/google/gemini-2.5-flash''" and flow_id = "''W1''"]
  from raw have ex: "\<exists>u v. fst ?x = u @ ''Error:'' @ v" by blast
  from raw' have ex': "\<exists>u v. fst ?y = u @ ''Error:'' @ v" by blast
  have call: "call_agent ?e example_world ''A1'' ''ping'' ''prompt'' None None 300 1000
                ''last_message''
              = (build_response ?e ''A1'' ''prompt'' None ''openrouter/google/gemini-2.5-flash''
                   ''last_message'' 1000 (fst ?x), snd ?x)"
    using inst [THEN conjunct2, THEN conjunct2, THEN conjunct1] acc fb by simp
  have call': "call_agent ?f example_world ''A1'' ''go'' ''workflow'' (Some ''W1'') None 300
                 1000 ''full''
              = (build_response ?f ''A1'' ''workflow'' (Some ''W1'')
                   ''openrouter/google/gemini-2.5-flash'' ''full'' 1000 (fst ?y), snd ?y)"
    using inst' [THEN conjunct2, THEN conjunct2, THEN conjunct2] acc' fb by simp
  have c1: "fst (call_agent ?e example_world ''A1'' ''ping'' ''prompt'' None None 300 1000
                   ''last_message'')
     = ToolResult False (Data
         \<lparr>resp_agent_id = ''A1'', resp_execution_mode = ''prompt'', resp_workflow_id = None,
          resp_model_used = ''openrouter/google/gemini-2.5-flash'',
          resp_output_mode = ''last_message'', resp_max_tokens = 1000,
          resp_status = ''failed'',
          resp_result = ''Agent execution completed successfully:'' @ [nl, nl] @ ''Error: none'',
          resp_raw_result = None, resp_timestamp = 46 * minute\<rparr>)"
    using inst [THEN conjunct1] ex unfolding call fst_conv ts by (simp add: raw)
  have c2: "map run_status (filter (\<lambda>r. run_id r = ''r1'')
        (agent_runs (snd (call_agent ?e example_world ''A1'' ''ping'' ''prompt'' None None 300
           1000 ''last_message'')))) = [''completed'']"
    unfolding call snd_conv by (rule runs)
  have c3: "fst (call_agent ?f example_world ''A1'' ''go'' ''workflow'' (Some ''W1'') None 300
                   1000 ''full'')
     = ToolResult False (Data
         \<lparr>resp_agent_id = ''A1'', resp_execution_mode = ''workflow'',
          resp_workflow_id = Some ''W1'',
          resp_model_used = ''openrouter/google/gemini-2.5-flash'',
          resp_output_mode = ''full'', resp_max_tokens = 1000, resp_status = ''failed'',
          resp_result = ''Error: Workflow report is not active (status: paused)'',
          resp_raw_result = None, resp_timestamp = 46 * minute\<rparr>)"
    using inst' [THEN conjunct1] ex' unfolding call' fst_conv ts by (simp add: raw')
  from c1 c2 c3 show ?thesis by blast
qed

section \<open>Properties of the supervisor and the reaper\<close>



lemma run_id_set_failed: "run_id (set_failed msg now r) = run_id r"
  by (simp add: set_failed_def)




text \<open>\<open>index\<close> fails exactly on what is not in the list. Among rows with distinct keys, the
  key of the row at position \<open>i\<close> is found among the keys of the selected rows at the number
  of selected rows before \<open>i\<close>, or not at all when the row is not selected. The loop of the
  sweep finalizes each run whose id is among those selected, at the clock reading of its
  position, and counts the selected.\<close>

lemma list_index_None: "list_index xs x = None \<longleftrightarrow> x \<notin> set xs"
  by (induction xs) auto

lemma list_index_selected:
  assumes "distinct (map f xs)" and "i < length xs"
  shows "list_index (map f (filter P xs)) (f (xs ! i)) =
           (if P (xs ! i) then Some (length (filter P (take i xs))) else None)"
  using assms
proof (induction xs arbitrary: i)
  case Nil
  then show ?case by simp
next
  case (Cons y ys)
  show ?case
  proof (cases i)
    case 0
    have "f y \<notin> set (map f (filter P ys))" using Cons.prems(1) by auto
    then have "list_index (map f (filter P ys)) (f y) = None"
      by (simp add: list_index_None)
    with 0 show ?thesis by simp
  next
    case (Suc j)
    with Cons.prems have j: "j < length ys" and d: "distinct (map f ys)"
      and ne: "f y \<noteq> f (ys ! j)"
      by auto
    from Cons.IH [OF d j] Suc ne show ?thesis by simp
  qed
qed

lemma sweep_loop_result:
  "distinct (map run_id rs) \<Longrightarrow>
   sweep_loop clock mins rs (c, w) =
     (c + int (length rs),
      w\<lparr>agent_runs :=
          map (\<lambda>r. case list_index (map run_id rs) (run_id r) of
                      None \<Rightarrow> r
                    | Some k \<Rightarrow> set_failed (sweep_message mins) (clock k) r)
            (agent_runs w)\<rparr>)"
proof (induction rs arbitrary: clock c w)
  case Nil
  show ?case by simp
next
  case (Cons x xs)
  let ?g1 = "\<lambda>r. if run_id r = run_id x then set_failed (sweep_message mins) (clock 0) r else r"
  let ?g2 = "\<lambda>r. case list_index (map run_id xs) (run_id r) of
                     None \<Rightarrow> r
                   | Some k \<Rightarrow> set_failed (sweep_message mins) (clock (Suc k)) r"
  let ?g = "\<lambda>r. case list_index (map run_id (x # xs)) (run_id r) of
                     None \<Rightarrow> r
                   | Some k \<Rightarrow> set_failed (sweep_message mins) (clock k) r"
  from Cons.prems have d: "distinct (map run_id xs)" and nx: "run_id x \<notin> set (map run_id xs)"
    by auto
  from nx have none: "list_index (map run_id xs) (run_id x) = None"
    by (simp add: list_index_None)
  have g: "?g2 (?g1 r) = ?g r" for r
  proof (cases "run_id r = run_id x")
    case True
    then show ?thesis by (simp add: run_id_set_failed none)
  next
    case False
    then have "run_id x \<noteq> run_id r" by auto
    then show ?thesis using False by (simp split: option.splits)
  qed
  have "sweep_loop clock mins (x # xs) (c, w) =
          sweep_loop (\<lambda>k. clock (Suc k)) mins xs
            (c + 1, w\<lparr>agent_runs := map ?g1 (agent_runs w)\<rparr>)"
    by (simp add: update_agent_run_def)
  also have "\<dots> = (c + 1 + int (length xs),
                   w\<lparr>agent_runs := map ?g2 (map ?g1 (agent_runs w))\<rparr>)"
    by (simp add: Cons.IH [OF d])
  also have "map ?g2 (map ?g1 (agent_runs w)) = map ?g (agent_runs w)"
    unfolding map_map comp_def g ..
  finally show ?case by simp
qed

text \<open>
  Claim C8, as stated: the sweep sets to \<open>failed\<close> exactly the runs of the account that are
  \<open>running\<close> and started before the current time minus the threshold, and returns their
  number. With a threshold of minus ten thousand million minutes the cutoff lies after the
  year 9999: both example runs started before it, yet the subtraction overflows, the sweep
  returns 0 and no run is changed.
\<close>

theorem sweep_far_threshold_counterexample:
  "cleanup_stuck_agent_runs_by_timeout (31 * minute) example_clock example_world ''acct''
       (- 10000000000) = (0, example_world)
   \<and> length (filter (stuck_run ''acct'' (31 * minute - (- 10000000000) * minute))
                (agent_runs example_world)) = 2"
  by (simp add: cleanup_stuck_agent_runs_by_timeout_def timedelta_minutes_def
        datetime_minus_def datetime_min_def datetime_max_def minute_def stuck_run_def
        example_world_def example_run_def)

text \<open>
  Claim C8, amended. Let run ids be unique and the current time a valid \<open>datetime\<close>. When the
  current time minus the threshold is a valid \<open>datetime\<close> too (years 1 to 9999), the sweep
  sets to \<open>failed\<close>, with the message \<open>Agent run timed out after N minutes\<close> and the clock
  reading of its update as completion time, exactly the runs that belong to the account,
  have status \<open>running\<close> and started strictly before that cutoff; every other run and every
  other table is unchanged, and the result is the number of runs it set. When the cutoff is
  not a valid \<open>datetime\<close>, the sweep changes nothing and returns 0.
\<close>

theorem sweep_transitions_exactly_stale_runs:
  assumes ids: "distinct (map run_id (agent_runs w))"
    and now: "datetime_min \<le> now" "now \<le> datetime_max"
  shows "(datetime_min \<le> now - mins * 60000000 \<and> now - mins * 60000000 \<le> datetime_max \<longrightarrow>
        fst (cleanup_stuck_agent_runs_by_timeout now clock w account mins) =
          int (length (filter (\<lambda>r. run_account_id r = Some account \<and> run_status r = ''running''
                                    \<and> run_started_at r < now - mins * 60000000) (agent_runs w)))
        \<and> snd (cleanup_stuck_agent_runs_by_timeout now clock w account mins) =
            w\<lparr>agent_runs :=
                agent_runs (snd (cleanup_stuck_agent_runs_by_timeout now clock w account mins))\<rparr>
        \<and> length (agent_runs (snd (cleanup_stuck_agent_runs_by_timeout now clock w account mins)))
            = length (agent_runs w)
        \<and> (\<forall>i<length (agent_runs w).
              agent_runs (snd (cleanup_stuck_agent_runs_by_timeout now clock w account mins)) ! i =
                (if run_account_id (agent_runs w ! i) = Some account
                    \<and> run_status (agent_runs w ! i) = ''running''
                    \<and> run_started_at (agent_runs w ! i) < now - mins * 60000000
                 then (agent_runs w ! i)
                        \<lparr>run_status := ''failed'',
                         run_error_message :=
                           Some (''Agent run timed out after '' @ str_int mins @ '' minutes''),
                         run_completed_at :=
                           Some (clock (length (filter
                              (\<lambda>r. run_account_id r = Some account \<and> run_status r = ''running''
                                   \<and> run_started_at r < now - mins * 60000000)
                              (take i (agent_runs w)))))\<rparr>
                 else agent_runs w ! i)))
     \<and> (\<not> (datetime_min \<le> now - mins * 60000000 \<and> now - mins * 60000000 \<le> datetime_max) \<longrightarrow>
          cleanup_stuck_agent_runs_by_timeout now clock w account mins = (0, w))"
proof -
  let ?sel = "\<lambda>r. run_account_id r = Some account \<and> run_status r = ''running''
                   \<and> run_started_at r < now - mins * 60000000"
  let ?stuck = "filter ?sel (agent_runs w)"
  let ?g = "\<lambda>r. case list_index (map run_id ?stuck) (run_id r) of
                    None \<Rightarrow> r
                  | Some k \<Rightarrow> set_failed (sweep_message mins) (clock k) r"
  let ?R = "cleanup_stuck_agent_runs_by_timeout now clock w account mins"
  have sel: "stuck_run account (now - mins * minute) = ?sel"
    by (rule ext) (simp add: stuck_run_def minute_def)
  have inside: "?R = (int (length ?stuck), w\<lparr>agent_runs := map ?g (agent_runs w)\<rparr>)"
    if r: "datetime_min \<le> now - mins * 60000000" "now - mins * 60000000 \<le> datetime_max"
  proof -
    have td: "timedelta_minutes mins = Some (mins * minute)"
      using r now by (simp add: timedelta_minutes_def minute_def datetime_min_def datetime_max_def)
    have dm: "datetime_minus now (mins * minute) = Some (now - mins * minute)"
      using r by (simp add: datetime_minus_def minute_def)
    have ds: "distinct (map run_id ?stuck)" using ids by (rule distinct_map_filter)
    have "?R = sweep_loop clock mins ?stuck (0, w)"
      by (simp add: cleanup_stuck_agent_runs_by_timeout_def td dm sel Let_def)
    then show ?thesis by (simp add: sweep_loop_result [OF ds])
  qed
  have nth: "map ?g (agent_runs w) ! i =
       (if ?sel (agent_runs w ! i)
        then (agent_runs w ! i)
               \<lparr>run_status := ''failed'',
                run_error_message :=
                  Some (''Agent run timed out after '' @ str_int mins @ '' minutes''),
                run_completed_at := Some (clock (length (filter ?sel (take i (agent_runs w)))))\<rparr>
        else agent_runs w ! i)"
    if i: "i < length (agent_runs w)" for i
  proof -
    have "map ?g (agent_runs w) ! i = ?g (agent_runs w ! i)" using i by simp
    also have "\<dots> = (if ?sel (agent_runs w ! i)
        then set_failed (sweep_message mins)
               (clock (length (filter ?sel (take i (agent_runs w))))) (agent_runs w ! i)
        else agent_runs w ! i)"
      unfolding list_index_selected [OF ids i, of ?sel] by simp
    finally show ?thesis by (simp add: set_failed_def sweep_message_def)
  qed
  have outside: "?R = (0, w)"
    if r: "\<not> (datetime_min \<le> now - mins * 60000000 \<and> now - mins * 60000000 \<le> datetime_max)"
  proof (cases "timedelta_minutes mins")
    case None
    then show ?thesis by (simp add: cleanup_stuck_agent_runs_by_timeout_def)
  next
    case (Some delta)
    then have "delta = mins * 60000000"
      by (simp add: timedelta_minutes_def minute_def split: if_splits)
    with r have "datetime_minus now delta = None" by (simp add: datetime_minus_def)
    with Some show ?thesis by (simp add: cleanup_stuck_agent_runs_by_timeout_def)
  qed
  from inside nth outside show ?thesis by simp
qed

theorem sweep_transitions_exactly_stale_runs_witness:
  "fst (cleanup_stuck_agent_runs_by_timeout (31 * minute) example_clock example_world ''acct''
          30) = 1
   \<and> agent_runs (snd (cleanup_stuck_agent_runs_by_timeout (31 * minute) example_clock
        example_world ''acct'' 30)) ! 0
       = (example_run ''r31'' 0)\<lparr>run_status := ''failed'',
            run_error_message := Some ''Agent run timed out after 30 minutes'',
            run_completed_at := Some (32 * minute)\<rparr>
   \<and> agent_runs (snd (cleanup_stuck_agent_runs_by_timeout (31 * minute) example_clock
        example_world ''acct'' 30)) ! 1
       = example_run ''r10'' (21 * minute)"
proof -
  have ids: "distinct (map run_id (agent_runs example_world))"
    by (simp add: example_world_def example_run_def)
  have now: "datetime_min \<le> 31 * minute" "31 * minute \<le> datetime_max"
    by (simp_all add: datetime_min_def datetime_max_def minute_def)
  have cut: "datetime_min \<le> 31 * minute - 30 * 60000000
             \<and> 31 * minute - 30 * 60000000 \<le> datetime_max"
    by (simp add: datetime_min_def datetime_max_def minute_def)
  have d: "str_int 30 = ''30''" by code_simp
  have runs: "agent_runs example_world
                = [example_run ''r31'' 0, example_run ''r10'' (21 * minute)]"
    by (simp add: example_world_def)
  note inst = sweep_transitions_exactly_stale_runs [OF ids now, where mins = 30
      and clock = example_clock and account = "''acct''", THEN conjunct1, rule_format, OF cut]
  have c1: "fst (cleanup_stuck_agent_runs_by_timeout (31 * minute) example_clock example_world
                   ''acct'' 30) = 1"
    using inst [THEN conjunct1] by (simp add: runs example_run_def minute_def)
  note each = inst [THEN conjunct2, THEN conjunct2, THEN conjunct2, rule_format]
  have c2: "agent_runs (snd (cleanup_stuck_agent_runs_by_timeout (31 * minute) example_clock
        example_world ''acct'' 30)) ! 0
       = (example_run ''r31'' 0)\<lparr>run_status := ''failed'',
            run_error_message := Some ''Agent run timed out after 30 minutes'',
            run_completed_at := Some (32 * minute)\<rparr>"
    using each [of 0] by (simp add: runs d example_run_def minute_def example_clock_def)
  have c3: "agent_runs (snd (cleanup_stuck_agent_runs_by_timeout (31 * minute) example_clock
        example_world ''acct'' 30)) ! 1
       = example_run ''r10'' (21 * minute)"
    using each [of 1] by (simp add: runs example_run_def minute_def)
  from c1 c2 c3 show ?thesis by blast
qed

text \<open>The single-run cleanup leaves a run that is already completed or failed as it is.\<close>

lemma cleanup_stuck_agent_run_finished:
  assumes "filter (\<lambda>r. run_id r = rid) (agent_runs w) = r # rs"
    and "run_status r = ''completed'' \<or> run_status r = ''failed''"
  shows "cleanup_stuck_agent_run now w rid = (True, w)"
  using assms by (auto simp: cleanup_stuck_agent_run_def)

text \<open>
  Claim C1. Finalizing a run that is already completed or failed should leave its status,
  error message and completion time as the first finalize wrote them. The write of the
  timeout path does not test the status: after the single-run cleanup has finalized run
  \<open>r31\<close>, the timeout write replaces the cleanup's message and completion time with its own.
\<close>

theorem timeout_write_overwrites_finished_run:
  "map (\<lambda>r. (run_id r, run_status r, run_error_message r, run_completed_at r))
     (agent_runs (snd (cleanup_stuck_agent_run (41 * minute) example_world ''r31'')))
     = [(''r31'', ''failed'', Some ''Agent run was stuck and cleaned up'', Some (41 * minute)),
        (''r10'', ''running'', None, None)]
   \<and> map (\<lambda>r. (run_id r, run_status r, run_error_message r, run_completed_at r))
     (agent_runs (mark_agent_run_as_failed (45 * minute)
        (snd (cleanup_stuck_agent_run (41 * minute) example_world ''r31'')) ''r31''
        ''Execution timed out''))
     = [(''r31'', ''failed'', Some ''Execution timed out'', Some (45 * minute)),
        (''r10'', ''running'', None, None)]"
  by (simp add: cleanup_stuck_agent_run_def mark_agent_run_as_failed_def update_agent_run_def
        set_failed_def example_world_def example_run_def)


section \<open>Last-message extraction\<close>

text \<open>The scan from the end finds the last line that passes the test; \<open>index\<close> finds a line
  that does not occur earlier at its own position; the slice bound \<open>(-n) // 5\<close> leaves the
  last \<open>n / 5\<close> characters, rounded up.\<close>

lemma find_rev_last:
  "P l \<Longrightarrow> \<forall>x\<in>set post. \<not> P x \<Longrightarrow> find P (rev (pre @ l # post)) = Some l"
proof (induction post rule: rev_induct)
  case Nil
  then show ?case by simp
next
  case (snoc y ys)
  then show ?case by simp
qed

lemma list_index_first: "l \<notin> set pre \<Longrightarrow> list_index (pre @ l # post) l = Some (length pre)"
  by (induction pre) auto

lemma split_nl_Nil: "split_nl [] = [[]]"
  by (simp add: split_nl_def)

lemma not_substantial_Nil: "\<not> substantial []"
  by (simp add: substantial_def strip_def)

lemma tail_fifth: "nat (int n + (- int n) div 5) = n - (n + 4) div 5"
  by linarith

text \<open>
  Claim C7, as stated: last-message extraction returns the last non-empty line that starts
  neither a heading nor a code fence together with at most 3 preceding lines, and without
  such a line the trailing 20 percent of a transcript of more than 100 characters or else
  the transcript unchanged. On the two-line transcript \<open>answer\<close>, \<open>```\<close> that reading
  gives \<open>answer\<close>, while the code also returns the fence line that follows it.
\<close>

theorem extract_last_message_counterexample:
  "extract_last_message (''answer'' @ [nl] @ ''```'') = ''answer'' @ [nl] @ ''```''
   \<and> spec_last_message (''answer'' @ [nl] @ ''```'') = ''answer''"
  by code_simp

text \<open>
  Claim C7, amended. Let the lines be those of the transcript stripped of surrounding white
  space. When the last line that has a character other than white space and starts neither
  with \<open>#\<close> nor with \<open>```\<close> does not occur earlier among the lines, the result is the at
  most 3 lines before it, the line itself and every line after it, joined by line feeds and
  stripped of surrounding white space. When no line qualifies and the transcript is not all
  white space, the result is the last fifth of its characters (rounded up), stripped of
  surrounding white space, if it has more than 100 characters, and the transcript unchanged
  otherwise.
\<close>

theorem extract_last_message_tail:
  "(split_nl (strip transcript) = pre @ l # post
      \<and> (\<exists>c\<in>set l. \<not> is_space c) \<and> \<not> prefix ''#'' l \<and> \<not> prefix ''```'' l
      \<and> (\<forall>x\<in>set post. (\<forall>c\<in>set x. is_space c) \<or> prefix ''#'' x \<or> prefix ''```'' x)
      \<and> l \<notin> set pre
    \<longrightarrow> extract_last_message transcript
          = strip (join_nl (drop (length pre - 3) pre @ l # post)))
   \<and> ((\<exists>c\<in>set transcript. \<not> is_space c)
      \<and> (\<forall>x\<in>set (split_nl (strip transcript)).
             (\<forall>c\<in>set x. is_space c) \<or> prefix ''#'' x \<or> prefix ''```'' x)
    \<longrightarrow> extract_last_message transcript
          = (if 100 < length transcript
             then strip (drop (length transcript - (length transcript + 4) div 5) transcript)
             else transcript))"
proof -
  have sub: "substantial x \<longleftrightarrow>
               (\<exists>c\<in>set x. \<not> is_space c) \<and> \<not> prefix ''#'' x \<and> \<not> prefix ''```'' x" for x
    unfolding substantial_def strip_eq_Nil_iff by blast
  have 1: "extract_last_message transcript
          = strip (join_nl (drop (length pre - 3) pre @ l # post))"
    if ls: "split_nl (strip transcript) = pre @ l # post" and l: "substantial l"
      and post: "\<forall>x\<in>set post. \<not> substantial x" and pre: "l \<notin> set pre"
  proof -
    have ne: "strip transcript \<noteq> []"
    proof
      assume "strip transcript = []"
      with ls have "pre @ l # post = [[]]" by (simp add: split_nl_Nil)
      then have "l = []" by (cases pre) auto
      with l show False by (simp add: not_substantial_Nil)
    qed
    have f: "find substantial (rev (split_nl (strip transcript))) = Some l"
      unfolding ls using l post by (rule find_rev_last)
    have i: "list_index (split_nl (strip transcript)) l = Some (length pre)"
      unfolding ls using pre by (rule list_index_first)
    have n: "nat (max 0 (int (length pre) - 3)) = length pre - 3" by linarith
    have d: "drop (length pre - 3) (pre @ l # post) = drop (length pre - 3) pre @ l # post"
      by simp
    show ?thesis
      unfolding extract_last_message_def Let_def using ne
      by (simp only: f i n if_False option.case) (simp only: ls d)
  qed
  have 2: "extract_last_message transcript
          = (if 100 < length transcript
             then strip (drop (length transcript - (length transcript + 4) div 5) transcript)
             else transcript)"
    if ne: "\<exists>c\<in>set transcript. \<not> is_space c"
      and none: "\<forall>x\<in>set (split_nl (strip transcript)). \<not> substantial x"
  proof -
    from ne have s: "strip transcript \<noteq> []" by (simp add: strip_eq_Nil_iff)
    from none have f: "find substantial (rev (split_nl (strip transcript))) = None"
      by (simp add: find_None_iff)
    show ?thesis
      unfolding extract_last_message_def Let_def using s
      by (simp only: f if_False option.case tail_fifth)
  qed
  from 1 2 show ?thesis unfolding sub by blast
qed


theorem extract_last_message_tail_witness:
  "extract_last_message (''a'' @ [nl] @ ''b'' @ [nl] @ ''c'' @ [nl] @ ''d'' @ [nl] @ ''e''
       @ [nl] @ ''result'' @ [nl] @ ''```'' @ [CHR 0xA0])
     = ''c'' @ [nl] @ ''d'' @ [nl] @ ''e'' @ [nl] @ ''result'' @ [nl] @ ''```''
   \<and> extract_last_message ''# title'' = ''# title''"
proof -
  let ?t = "''a'' @ [nl] @ ''b'' @ [nl] @ ''c'' @ [nl] @ ''d'' @ [nl] @ ''e''
       @ [nl] @ ''result'' @ [nl] @ ''```'' @ [CHR 0xA0]"
  let ?pre = "[''a'', ''b'', ''c'', ''d'', ''e'']"
  have ls: "split_nl (strip ?t) = ?pre @ ''result'' # [''```'']" by code_simp
  have l1: "\<exists>c\<in>set ''result''. \<not> is_space c" by (simp add: is_space_def)
  have l2: "\<not> prefix ''#'' ''result''" "\<not> prefix ''```'' ''result''" by simp_all
  have post: "\<forall>x\<in>set [''```'']. (\<forall>c\<in>set x. is_space c) \<or> prefix ''#'' x \<or> prefix ''```'' x"
    by simp
  have pre: "''result'' \<notin> set ?pre" by simp
  have r: "strip (join_nl (drop (length ?pre - 3) ?pre @ ''result'' # [''```'']))
             = ''c'' @ [nl] @ ''d'' @ [nl] @ ''e'' @ [nl] @ ''result'' @ [nl] @ ''```''"
    by code_simp
  have a: "extract_last_message ?t
             = ''c'' @ [nl] @ ''d'' @ [nl] @ ''e'' @ [nl] @ ''result'' @ [nl] @ ''```''"
    using extract_last_message_tail [where transcript = ?t and pre = ?pre
        and l = "''result''" and post = "[''```'']", THEN conjunct1] ls l1 l2 post pre
    unfolding r by blast
  have ne: "\<exists>c\<in>set ''# title''. \<not> is_space c" by (simp add: is_space_def)
  have ls2: "split_nl (strip ''# title'') = [''# title'']" by code_simp
  have none: "\<forall>x\<in>set (split_nl (strip ''# title'')).
                (\<forall>c\<in>set x. is_space c) \<or> prefix ''#'' x \<or> prefix ''```'' x"
    unfolding ls2 by simp
  have b: "extract_last_message ''# title'' = ''# title''"
    using extract_last_message_tail [where transcript = "''# title''" and pre = "[]"
        and l = "[]" and post = "[]", THEN conjunct2] ne none
    by simp
  from a b show ?thesis by (rule conjI)
qed

end
